theory Spec2Isabelle
  imports Complex_Main "HOL-Library.Word"
begin

section \<open>Conversion of photographs for a seven-colour e-ink panel\<close>

text \<open>
  The development embeds \<^verbatim>\<open>crop_and_convert.py\<close>. Python's \<^verbatim>\<open>float\<close> values are
  represented by real numbers: every arithmetic operation is the exact one, and the
  rounding, the infinities and the NaN of IEEE doubles are outside the model. Python
  integers are \<^typ>\<open>int\<close>, the samples of a \<^verbatim>\<open>uint8\<close> array are \<^typ>\<open>8 word\<close>.
\<close>

subsection \<open>Scalar helpers\<close>

text \<open>\<^verbatim>\<open>int(x)\<close> on a float discards the fractional part, towards zero.\<close>

definition py_int :: "real \<Rightarrow> int" where
  "py_int x = (if 0 \<le> x then \<lfloor>x\<rfloor> else \<lceil>x\<rceil>)"

subsection \<open>The blue reduction of one pixel\<close>

text \<open>
  Lines 46 to 53 of \<^verbatim>\<open>reduce_blue_in_pixel\<close>: the value bound to \<^verbatim>\<open>result\<close>, as a
  function of \<^verbatim>\<open>shrunk_ratio\<close> and \<^verbatim>\<open>strength\<close>.
\<close>

definition curve_result :: "real \<Rightarrow> real \<Rightarrow> real" where
  "curve_result shrunk_ratio strength =
     (let exp_term = exp (3 * shrunk_ratio);
          sin_term = sin (2 * pi * shrunk_ratio);
          cos_term = cos (2 * pi * shrunk_ratio);
          exp_denom = exp 3
      in ((1 / 4) * ((- 4) * pi ^ 2 * exp_term + 6 * pi * sin_term - 9 * cos_term + 9 + 4 * pi ^ 2) *
            exp (3 - 3 * shrunk_ratio) / (pi ^ 2 * (1 - exp_denom)) - 1) * strength + 1)"

text \<open>
  Lines 24 to 54: the value of \<^verbatim>\<open>reduction_factor\<close> when line 57 is reached. The
  division by \<^verbatim>\<open>luminance_threshold\<close> is only evaluated under
  \<^verbatim>\<open>luminance < luminance_threshold\<close>.
\<close>

definition reduction_factor :: "int \<Rightarrow> int \<Rightarrow> int \<Rightarrow> real \<Rightarrow> real \<Rightarrow> real \<Rightarrow> real" where
  "reduction_factor r g b strength dark_strength luminance_threshold =
     (let r_norm = real_of_int r / 255.0;
          g_norm = real_of_int g / 255.0;
          b_norm = real_of_int b / 255.0;
          luminance = 0.299 * r_norm + 0.587 * g_norm + 0.114 * b_norm;
          total = r_norm + g_norm + b_norm + 0.000001;
          blue_ratio = b_norm / total;
          shrunk_ratio = blue_ratio * 1.5;
          factor0 = 1.0;
          factor1 =
            (if dark_strength > 0 \<and> luminance < luminance_threshold
             then (let darkness_factor = 1 - (luminance / luminance_threshold);
                       additional_reduction = 1 - (dark_strength * darkness_factor * 0.1)
                   in factor0 * additional_reduction)
             else factor0)
      in (if strength > 0 then factor1 * curve_result shrunk_ratio strength else factor1))"

definition reduce_blue_in_pixel ::
  "int \<Rightarrow> int \<Rightarrow> int \<Rightarrow> real \<Rightarrow> real \<Rightarrow> real \<Rightarrow> int \<times> int \<times> int" where
  "reduce_blue_in_pixel r g b strength dark_strength luminance_threshold =
     (if strength = 0 \<and> dark_strength = 0 then (r, g, b)
      else
        (let b_norm = real_of_int b / 255.0;
             new_b = max 0 (min 255
                       (b_norm * reduction_factor r g b strength dark_strength luminance_threshold * 255))
         in (r, g, py_int new_b)))"

text \<open>The default of the third keyword parameter.\<close>

definition default_luminance_threshold :: real where
  "default_luminance_threshold = 0.35"

subsection \<open>Images and the library operations on them\<close>

text \<open>
  An image carries its mode, its size and its samples. The rows are what
  \<^verbatim>\<open>np.array(image)\<close> yields for a three-channel image: \<^verbatim>\<open>height\<close> rows of \<^verbatim>\<open>width\<close>
  pixels of three \<^verbatim>\<open>uint8\<close> samples. \<^verbatim>\<open>Image.fromarray\<close> of an array computed sample by
  sample from \<^verbatim>\<open>np.array(image)\<close> is the image of the same size, in mode RGB, with the new
  rows. Arrays of images in other modes have another shape and are not covered. The
  source's variable \<^verbatim>\<open>image\<close> is written \<open>img\<close>.
\<close>

type_synonym pixel = "8 word \<times> 8 word \<times> 8 word"

record image =
  img_mode :: string
  img_width :: int
  img_height :: int
  img_rows :: "pixel list list"

definition img_size :: "image \<Rightarrow> int \<times> int" where
  "img_size img = (img_width img, img_height img)"

definition fromarray :: "image \<Rightarrow> pixel list list \<Rightarrow> image" where
  "fromarray img img_array = img\<lparr>img_mode := ''RGB'', img_rows := img_array\<rparr>"

datatype dither = NONE | FLOYDSTEINBERG

text \<open>
  The operations of Pillow and of the Python standard library that the program calls are
  parameters of the model: \<^verbatim>\<open>image.convert(mode)\<close>, \<^verbatim>\<open>image.crop(box)\<close>,
  \<^verbatim>\<open>image.resize(size, Image.LANCZOS)\<close>, \<^verbatim>\<open>ImageEnhance.Color(image).enhance(factor)\<close>,
  \<^verbatim>\<open>ImageEnhance.Contrast(image).enhance(factor)\<close>,
  \<^verbatim>\<open>image.quantize(palette=palette_img, dither=d)\<close>, \<^verbatim>\<open>float(s)\<close> on a string (\<open>None\<close>
  is its ValueError), \<^verbatim>\<open>os.path.splitext(os.path.basename(p))[0]\<close> and \<^verbatim>\<open>os.path.join\<close>.
  The image operations are total here: an exception raised inside Pillow is not modelled.
\<close>

record lib =
  image_convert :: "image \<Rightarrow> string \<Rightarrow> image"
  image_crop :: "image \<Rightarrow> int \<times> int \<times> int \<times> int \<Rightarrow> image"
  image_resize :: "image \<Rightarrow> int \<times> int \<Rightarrow> image"
  enhance_color :: "image \<Rightarrow> real \<Rightarrow> image"
  enhance_contrast :: "image \<Rightarrow> real \<Rightarrow> image"
  image_quantize :: "image \<Rightarrow> image \<Rightarrow> dither \<Rightarrow> image"
  py_float :: "string \<Rightarrow> real option"
  path_stem :: "string \<Rightarrow> string"
  path_join :: "string \<Rightarrow> string \<Rightarrow> string"

datatype py_error = ValueError | IndexError | ZeroDivisionError | FileNotFoundError

subsection \<open>The blue reduction of a frame\<close>

definition reduce_blue_sample :: "real \<Rightarrow> real \<Rightarrow> pixel \<Rightarrow> pixel" where
  "reduce_blue_sample strength dark_strength p =
     (case p of (r, g, b) \<Rightarrow>
        (case reduce_blue_in_pixel (uint r) (uint g) (uint b) strength dark_strength
                default_luminance_threshold of
           (new_r, new_g, new_b) \<Rightarrow> (word_of_int new_r, word_of_int new_g, word_of_int new_b)))"

definition apply_blue_reduction :: "lib \<Rightarrow> image \<Rightarrow> real \<Rightarrow> real \<Rightarrow> image" where
  "apply_blue_reduction L img strength dark_strength =
     (if strength = 0 \<and> dark_strength = 0 then img
      else
        (let img = (if img_mode img \<noteq> ''RGB'' then image_convert L img ''RGB'' else img);
             img_array = img_rows img;
             img_array = map (map (reduce_blue_sample strength dark_strength)) img_array
         in fromarray img img_array))"

subsection \<open>The adjustments\<close>

definition np_clip :: "real \<Rightarrow> real \<Rightarrow> real \<Rightarrow> real" where
  "np_clip a a_min a_max = min a_max (max a a_min)"

text \<open>
  \<^verbatim>\<open>astype(np.uint8)\<close> on a float sample drops the fraction; the program applies it to
  clipped values only, and outside \<open>[0, 256)\<close> the model wraps modulo 256.
\<close>

definition astype_uint8 :: "real \<Rightarrow> 8 word" where
  "astype_uint8 x = word_of_int (py_int x)"

definition astype_float :: "8 word \<Rightarrow> real" where
  "astype_float v = real_of_int (uint v)"

definition map_pixel :: "(8 word \<Rightarrow> 8 word) \<Rightarrow> pixel \<Rightarrow> pixel" where
  "map_pixel f p = (case p of (r, g, b) \<Rightarrow> (f r, f g, f b))"

definition saturation_step :: "lib \<Rightarrow> int \<Rightarrow> image \<Rightarrow> image" where
  "saturation_step L saturation img =
     (if saturation \<noteq> 100 then enhance_color L img (real_of_int saturation / 100.0) else img)"

definition black_level_sample :: "int \<Rightarrow> 8 word \<Rightarrow> 8 word" where
  "black_level_sample black_level v =
     astype_uint8 (np_clip (astype_float v + real_of_int (black_level * 255) / 100) 0 255)"

definition black_level_step :: "int \<Rightarrow> image \<Rightarrow> image" where
  "black_level_step black_level img =
     (if black_level > 0
      then (let img_array = img_rows img;
                img_array = map (map (map_pixel (black_level_sample black_level))) img_array
            in fromarray img img_array)
      else img)"

definition contrast_step :: "lib \<Rightarrow> real \<Rightarrow> image \<Rightarrow> image" where
  "contrast_step L contrast img =
     (if contrast \<noteq> 0
      then (if contrast > 0 then enhance_contrast L img (1 + contrast * 0.2)
            else enhance_contrast L img (1 + contrast * 0.1))
      else img)"

definition shadow_pixel :: "real \<Rightarrow> pixel \<Rightarrow> pixel" where
  "shadow_pixel shadows p =
     (case p of (r, g, b) \<Rightarrow>
        (let luminance = 0.299 * astype_float r + 0.587 * astype_float g + 0.114 * astype_float b;
             shadow_mask = (255 - luminance) / 255;
             adjustment = shadow_mask * shadows * 5
         in (astype_uint8 (np_clip (astype_float r + adjustment) 0 255),
             astype_uint8 (np_clip (astype_float g + adjustment) 0 255),
             astype_uint8 (np_clip (astype_float b + adjustment) 0 255))))"

definition shadow_step :: "real \<Rightarrow> image \<Rightarrow> image" where
  "shadow_step shadows img =
     (if shadows > 0
      then fromarray img (map (map (shadow_pixel shadows)) (img_rows img))
      else img)"

definition apply_adjustments :: "lib \<Rightarrow> image \<Rightarrow> int \<Rightarrow> int \<Rightarrow> real \<Rightarrow> real \<Rightarrow> image" where
  "apply_adjustments L img saturation black_level contrast shadows =
     (let img = saturation_step L saturation img;
          img = black_level_step black_level img;
          img = contrast_step L contrast img;
          img = shadow_step shadows img
      in img)"

subsection \<open>Cropping\<close>

text \<open>\<^verbatim>\<open>s.split(':')\<close>: the pieces between the colons, at least one piece.\<close>

fun split_on :: "char \<Rightarrow> string \<Rightarrow> string list" where
  "split_on c [] = [[]]"
| "split_on c (x # xs) =
     (if x = c then [] # split_on c xs
      else (case split_on c xs of
              [] \<Rightarrow> [[x]]
            | w # ws \<Rightarrow> (x # w) # ws))"

text \<open>
  The exceptions of \<^verbatim>\<open>crop_to_ratio\<close> in the order Python meets them: \<^verbatim>\<open>float\<close> of the
  first piece, the index of the second piece, \<^verbatim>\<open>float\<close> of it, the three divisions.
\<close>

definition crop_to_ratio :: "lib \<Rightarrow> image \<Rightarrow> string \<Rightarrow> py_error + image" where
  "crop_to_ratio L img ratio_str =
     (let width = img_width img;
          height = img_height img;
          ratio_parts = split_on CHR '':'' ratio_str
      in (case ratio_parts of
            [] \<Rightarrow> Inl IndexError
          | part0 # rest \<Rightarrow>
              (case py_float L part0 of
                 None \<Rightarrow> Inl ValueError
               | Some num \<Rightarrow>
                   (case rest of
                      [] \<Rightarrow> Inl IndexError
                    | part1 # _ \<Rightarrow>
                        (case py_float L part1 of
                           None \<Rightarrow> Inl ValueError
                         | Some den \<Rightarrow>
                             if den = 0 then Inl ZeroDivisionError
                             else
                               (let target_ratio = num / den
                                in if height = 0 then Inl ZeroDivisionError
                                   else
                                     (let current_ratio = real_of_int width / real_of_int height
                                      in if current_ratio > target_ratio
                                         then
                                           (let new_width = py_int (real_of_int height * target_ratio);
                                                left = (width - new_width) div 2
                                            in Inr (image_crop L img (left, 0, left + new_width, height)))
                                         else if target_ratio = 0 then Inl ZeroDivisionError
                                         else
                                           (let new_height = py_int (real_of_int width / target_ratio);
                                                top = (height - new_height) div 2
                                            in Inr (image_crop L img (0, top, width, top + new_height))))))))))"

subsection \<open>Dithering\<close>

text \<open>\<^verbatim>\<open>str.lower\<close> on ASCII letters.\<close>

definition lower_char :: "char \<Rightarrow> char" where
  "lower_char c =
     (let n = (of_char c :: nat) in if 65 \<le> n \<and> n \<le> 90 then char_of (n + 32) else c)"

definition py_lower :: "string \<Rightarrow> string" where
  "py_lower s = map lower_char s"

definition simple_dither ::
  "lib \<Rightarrow> (string \<rightharpoonup> image) \<Rightarrow> image \<Rightarrow> string \<Rightarrow> string \<Rightarrow> py_error + image" where
  "simple_dither L files img palette_path method =
     (case files palette_path of
        None \<Rightarrow> Inl FileNotFoundError
      | Some palette_img \<Rightarrow>
          (let quantized =
                 (if py_lower method = ''none''
                  then image_quantize L img palette_img NONE
                  else image_quantize L img palette_img FLOYDSTEINBERG)
           in Inr (image_convert L quantized ''RGB'')))"

subsection \<open>The command-line program\<close>

text \<open>
  The parsed arguments, the files and directories the program sees, and what it prints.
  A file that exists is an image that \<^verbatim>\<open>Image.open\<close> decodes. The printed lines are
  kept as structured messages.
\<close>

record args =
  arg_image_path :: string
  arg_diffusion :: int
  arg_blue_reduction :: real
  arg_dark_blue_reduction :: real
  arg_saturation :: int
  arg_black_level :: int
  arg_contrast :: real
  arg_shadows :: real
  arg_dither_method :: string

datatype message =
    Msg_not_found string
  | Msg_processing string string
  | Msg_settings real real int int real real
  | Msg_original_dimensions "int \<times> int"
  | Msg_detected string string "int \<times> int"
  | Msg_palette_warning string
  | Msg_done

record world =
  files :: "string \<rightharpoonup> image"
  directories :: "string set"
  stdout :: "message list"

datatype outcome = Returned | SysExit int | Raised py_error

definition print :: "message \<Rightarrow> world \<Rightarrow> world" where
  "print m w = w\<lparr>stdout := stdout w @ [m]\<rparr>"

definition main :: "lib \<Rightarrow> args \<Rightarrow> world \<Rightarrow> outcome \<times> world" where
  "main L a w =
     (case files w (arg_image_path a) of
        None \<Rightarrow> (SysExit 1, print (Msg_not_found (arg_image_path a)) w)
      | Some opened \<Rightarrow>
          (let w = w\<lparr>directories := insert ''converted'' (directories w)\<rparr>;
               base_name = path_stem L (arg_image_path a);
               output_path = path_join L ''converted'' (base_name @ ''_converted.bmp'');
               w = print (Msg_processing (arg_image_path a) output_path) w;
               w = print (Msg_settings (arg_blue_reduction a) (arg_dark_blue_reduction a)
                            (arg_saturation a) (arg_black_level a) (arg_contrast a) (arg_shadows a)) w;
               img = opened;
               w = print (Msg_original_dimensions (img_size img)) w;
               width = img_width img;
               height = img_height img;
               (crop_ratio, final_dimensions, orientation) =
                 (if width > height then (''5:3'', (800, 480), ''landscape'')
                  else (''3:5'', (480, 800), ''portrait''));
               w = print (Msg_detected orientation crop_ratio final_dimensions) w
           in (case crop_to_ratio L img crop_ratio of
                 Inl e \<Rightarrow> (Raised e, w)
               | Inr img \<Rightarrow>
                   (let img = image_resize L img final_dimensions;
                        img = apply_blue_reduction L img (arg_blue_reduction a) (arg_dark_blue_reduction a);
                        img = apply_adjustments L img (arg_saturation a) (arg_black_level a)
                                (arg_contrast a) (arg_shadows a);
                        palette_path = ''palette_7color.gif''
                    in (case (if files w palette_path \<noteq> None
                              then (case simple_dither L (files w) img palette_path (arg_dither_method a) of
                                      Inl e \<Rightarrow> Inl e
                                    | Inr img \<Rightarrow> Inr (img, w))
                              else Inr (img, print (Msg_palette_warning palette_path) w)) of
                          Inl e \<Rightarrow> (Raised e, w)
                        | Inr (img, w) \<Rightarrow>
                            (let w = w\<lparr>files := (files w)(output_path \<mapsto> img)\<rparr>
                             in (Returned, print Msg_done w)))))))"

text \<open>The defaults that \<^verbatim>\<open>argparse\<close> fills in for the options that are not given.\<close>

definition default_args :: "string \<Rightarrow> args" where
  "default_args path =
     \<lparr>arg_image_path = path, arg_diffusion = 85, arg_blue_reduction = 0,
      arg_dark_blue_reduction = 0, arg_saturation = 100, arg_black_level = 0,
      arg_contrast = 1, arg_shadows = 0, arg_dither_method = ''FloydSteinberg''\<rparr>"

subsection \<open>What is assumed of the library\<close>

text \<open>
  Pillow and the standard library are not part of the program. Where a property of the
  program rests on them, the property names what it needs. \<open>parses_ratio\<close>: \<^verbatim>\<open>float\<close>
  reads the two numerals that \<^verbatim>\<open>main\<close> puts into its ratio strings.
\<close>

definition parses_ratio :: "lib \<Rightarrow> bool" where
  "parses_ratio L \<longleftrightarrow> py_float L ''5'' = Some 5 \<and> py_float L ''3'' = Some 3"

text \<open>
  \<open>keeps_size\<close>: a crop has the size of its box, a resize has the requested size, and
  conversion, enhancement and quantisation keep the size.
\<close>

definition keeps_size :: "lib \<Rightarrow> bool" where
  "keeps_size L \<longleftrightarrow>
     (\<forall>img l u r b. l \<le> r \<and> u \<le> b \<longrightarrow> img_size (image_crop L img (l, u, r, b)) = (r - l, b - u)) \<and>
     (\<forall>img d. img_size (image_resize L img d) = d) \<and>
     (\<forall>img m. img_size (image_convert L img m) = img_size img) \<and>
     (\<forall>img f. img_size (enhance_color L img f) = img_size img) \<and>
     (\<forall>img f. img_size (enhance_contrast L img f) = img_size img) \<and>
     (\<forall>img p d. img_size (image_quantize L img p d) = img_size img)"

text \<open>An image of one colour.\<close>

definition uniform_image :: "string \<Rightarrow> int \<Rightarrow> int \<Rightarrow> pixel \<Rightarrow> image" where
  "uniform_image m w h c =
     \<lparr>img_mode = m, img_width = w, img_height = h,
      img_rows = replicate (nat h) (replicate (nat w) c)\<rparr>"

text \<open>
  A linear stretch of one sample about a pivot, clipped and cut to 8 bits: the blend
  \<open>pivot + factor * (v - pivot)\<close> that \<^verbatim>\<open>ImageEnhance\<close> computes against its degenerate
  image.
\<close>

definition stretch_sample :: "real \<Rightarrow> real \<Rightarrow> 8 word \<Rightarrow> 8 word" where
  "stretch_sample pivot factor v =
     astype_uint8 (np_clip (pivot + factor * (astype_float v - pivot)) 0 255)"

text \<open>
  \<open>keeps_uniform\<close>: the crop of a one-colour image to its full box is that image, the
  resize of a one-colour image is the one-colour image of the requested size, and the
  contrast enhancement is a linear stretch of every sample about one grey level of the
  sample range (Pillow takes the rounded mean luminance of the image).
\<close>

definition keeps_uniform :: "lib \<Rightarrow> bool" where
  "keeps_uniform L \<longleftrightarrow>
     (\<forall>m w h c. image_crop L (uniform_image m w h c) (0, 0, w, h) = uniform_image m w h c) \<and>
     (\<forall>m w h c w' h'. 0 < w \<and> 0 < h \<and> 0 < w' \<and> 0 < h' \<longrightarrow>
         image_resize L (uniform_image m w h c) (w', h') = uniform_image m w' h' c) \<and>
     (\<forall>img f. \<exists>pivot. 0 \<le> pivot \<and> pivot \<le> 255 \<and>
         enhance_contrast L img f =
           img\<lparr>img_rows := map (map (map_pixel (stretch_sample pivot f))) (img_rows img)\<rparr>)"

subsection \<open>A reference library\<close>

text \<open>
  One library that meets the assumptions: a crop that copies the box, a nearest-neighbour
  resize, enhancements that stretch about the pixel's luminance and about mid-grey, a
  quantisation that only changes the mode, a reader of unsigned decimal numerals.
\<close>

definition ref_convert :: "image \<Rightarrow> string \<Rightarrow> image" where
  "ref_convert img m = img\<lparr>img_mode := m\<rparr>"

definition ref_crop :: "image \<Rightarrow> int \<times> int \<times> int \<times> int \<Rightarrow> image" where
  "ref_crop img box =
     (case box of (l, u, r, b) \<Rightarrow>
        \<lparr>img_mode = img_mode img, img_width = r - l, img_height = b - u,
         img_rows = map (\<lambda>row. take (nat (r - l)) (drop (nat l) row))
                      (take (nat (b - u)) (drop (nat u) (img_rows img)))\<rparr>)"

definition ref_resize :: "image \<Rightarrow> int \<times> int \<Rightarrow> image" where
  "ref_resize img d =
     (case d of (w, h) \<Rightarrow>
        \<lparr>img_mode = img_mode img, img_width = w, img_height = h,
         img_rows =
           map (\<lambda>y. map (\<lambda>x. img_rows img ! (y * nat (img_height img) div nat h)
                                          ! (x * nat (img_width img) div nat w))
                      [0..<nat w])
               [0..<nat h]\<rparr>)"

definition ref_luma :: "pixel \<Rightarrow> real" where
  "ref_luma p =
     (case p of (r, g, b) \<Rightarrow> real_of_int ((299 * uint r + 587 * uint g + 114 * uint b) div 1000))"

definition ref_color :: "image \<Rightarrow> real \<Rightarrow> image" where
  "ref_color img f =
     img\<lparr>img_rows := map (map (\<lambda>p. map_pixel (stretch_sample (ref_luma p) f) p)) (img_rows img)\<rparr>"

definition ref_contrast :: "image \<Rightarrow> real \<Rightarrow> image" where
  "ref_contrast img f =
     img\<lparr>img_rows := map (map (map_pixel (stretch_sample 128 f))) (img_rows img)\<rparr>"

definition ref_quantize :: "image \<Rightarrow> image \<Rightarrow> dither \<Rightarrow> image" where
  "ref_quantize img palette_img d = img\<lparr>img_mode := ''P''\<rparr>"

definition digit_value :: "char \<Rightarrow> nat" where
  "digit_value c = of_char c - 48"

definition is_digit :: "char \<Rightarrow> bool" where
  "is_digit c \<longleftrightarrow> 48 \<le> (of_char c :: nat) \<and> (of_char c :: nat) \<le> 57"

definition ref_float :: "string \<Rightarrow> real option" where
  "ref_float s =
     (if s \<noteq> [] \<and> list_all is_digit s
      then Some (real (foldl (\<lambda>n c. 10 * n + digit_value c) 0 s))
      else None)"

definition ref_lib :: lib where
  "ref_lib =
     \<lparr>image_convert = ref_convert, image_crop = ref_crop, image_resize = ref_resize,
      enhance_color = ref_color, enhance_contrast = ref_contrast,
      image_quantize = ref_quantize, py_float = ref_float,
      path_stem = takeWhile (\<lambda>c. c \<noteq> CHR ''.''),
      path_join = (\<lambda>a b. a @ ''/'' @ b)\<rparr>"

subsection \<open>Sample ranges\<close>

definition pixel_samples :: "pixel \<Rightarrow> int list" where
  "pixel_samples p = (case p of (r, g, b) \<Rightarrow> [uint r, uint g, uint b])"

definition in_range :: "int \<Rightarrow> bool" where
  "in_range c \<longleftrightarrow> 0 \<le> c \<and> c \<le> 255"

definition image_in_range :: "image \<Rightarrow> bool" where
  "image_in_range img \<longleftrightarrow> list_all (list_all (\<lambda>p. list_all in_range (pixel_samples p))) (img_rows img)"

subsection \<open>Sample inputs\<close>

definition sample_image :: image where
  "sample_image = uniform_image ''RGB'' 7 3 (10, 20, 200)"

definition red_image :: image where
  "red_image = uniform_image ''RGB'' 1600 960 (255, 0, 0)"

definition sample_world :: "image \<Rightarrow> world" where
  "sample_world img = \<lparr>files = [''photo.png'' \<mapsto> img], directories = {}, stdout = []\<rparr>"

section \<open>Properties\<close>

subsection \<open>Helper facts\<close>

lemma py_int_nonneg: "0 \<le> x \<Longrightarrow> py_int x = \<lfloor>x\<rfloor>"
  by (simp add: py_int_def)

lemma py_int_clamped: "py_int (max 0 (min 255 v)) = \<lfloor>max 0 (min 255 v)\<rfloor>"
  by (rule py_int_nonneg) simp

lemma floor_clamped_range: "0 \<le> \<lfloor>max 0 (min 255 (v::real))\<rfloor> \<and> \<lfloor>max 0 (min 255 v)\<rfloor> \<le> (255::int)"
proof
  show "0 \<le> \<lfloor>max 0 (min 255 v)\<rfloor>" by simp
next
  have "max 0 (min 255 v) \<le> 255" by simp
  then have "\<lfloor>max 0 (min 255 v)\<rfloor> \<le> \<lfloor>255::real\<rfloor>" by (rule floor_mono)
  then show "\<lfloor>max 0 (min 255 v)\<rfloor> \<le> (255::int)" by simp
qed

lemma curve_ge_one:
  assumes x: "29 / 20 \<le> x" and s: "0 \<le> s"
  shows "1 \<le> curve_result x s"
proof -
  define E where "E = exp (3 - 3 * x)"
  define B where "B = 6 * pi * sin (2 * pi * x) - 9 * cos (2 * pi * x) + 9 + 4 * pi ^ 2"
  define N where "N = (- 4) * pi ^ 2 * exp (3 * x) + 6 * pi * sin (2 * pi * x) - 9 * cos (2 * pi * x) + 9 + 4 * pi ^ 2"
  define D where "D = pi ^ 2 * (1 - exp 3)"
  have e3: "1 < exp (3::real)" by simp
  have Dneg: "D < 0" unfolding D_def using e3 by (simp add: mult_pos_neg)
  have y: "27 / 20 \<le> 3 * x - 3" using x by simp
  then have y0: "0 \<le> 3 * x - 3" by simp
  have "(27 / 20) ^ 2 \<le> (3 * x - 3) ^ 2"
    by (rule power_mono [OF y]) simp
  then have "3 \<le> 1 + (3 * x - 3) + (3 * x - 3) ^ 2 / 2" using y by (simp add: power2_eq_square)
  also have "\<dots> \<le> exp (3 * x - 3)" by (rule exp_lower_Taylor_quadratic [OF y0])
  finally have e2: "3 \<le> exp (3 * x - 3)" .
  have einv: "E = inverse (exp (3 * x - 3))"
    unfolding E_def by (simp add: exp_minus [symmetric])
  have ethird: "E \<le> 1 / 3"
    unfolding einv using e2 by (simp add: field_simps)
  have epos: "0 \<le> E" unfolding E_def by simp
  have s1: "sin (2 * pi * x) \<le> 1" by simp
  have c1: "- cos (2 * pi * x) \<le> 1" by simp
  have "6 * pi * sin (2 * pi * x) \<le> 6 * pi * 1"
    by (rule mult_left_mono [OF s1]) simp
  then have Bb: "B \<le> 6 * pi + 18 + 4 * pi ^ 2"
    unfolding B_def using c1 by linarith
  have Bpos: "0 \<le> 6 * pi + 18 + 4 * pi ^ 2" by (simp add: add_nonneg_nonneg)
  have "B * E \<le> (6 * pi + 18 + 4 * pi ^ 2) * E"
    by (rule mult_right_mono [OF Bb epos])
  also have "\<dots> \<le> (6 * pi + 18 + 4 * pi ^ 2) * (1 / 3)"
    by (rule mult_left_mono [OF ethird Bpos])
  finally have M1: "B * E \<le> 2 * pi + 6 + (4 / 3) * pi ^ 2" by simp
  have "2 * pi \<le> pi * pi" by (rule mult_right_mono [OF pi_ge_two]) simp
  then have p2: "2 * pi \<le> pi ^ 2" by (simp add: power2_eq_square)
  have M2: "B * E \<le> 4 * pi ^ 2" using M1 p2 pi_ge_two by linarith
  have ee: "exp (3 * x) * E = exp 3"
    unfolding E_def by (simp add: exp_add [symmetric])
  have NB: "N = (- 4) * pi ^ 2 * exp (3 * x) + B" unfolding N_def B_def by simp
  have "N * E = (- 4) * pi ^ 2 * (exp (3 * x) * E) + B * E"
    unfolding NB by (simp only: distrib_right mult.assoc)
  then have NE: "N * E = (- 4) * pi ^ 2 * exp 3 + B * E" by (simp only: ee)
  have "(1 / 4) * N * E = (1 / 4) * (N * E)" by simp
  also have "\<dots> = - (pi ^ 2 * exp 3) + (B * E) / 4" by (simp add: NE)
  also have "\<dots> \<le> - (pi ^ 2 * exp 3) + pi ^ 2" using M2 by simp
  also have "\<dots> = D" unfolding D_def by (simp add: algebra_simps)
  finally have "(1 / 4) * N * E \<le> 1 * D" by simp
  then have Q: "1 \<le> (1 / 4) * N * E / D" using Dneg by (simp only: neg_le_divide_eq)
  have "0 \<le> ((1 / 4) * N * E / D - 1) * s"
    by (rule mult_nonneg_nonneg) (use Q s in simp_all)
  then have "1 \<le> ((1 / 4) * N * E / D - 1) * s + 1" by simp
  then show ?thesis
    unfolding curve_result_def Let_def N_def E_def D_def .
qed

lemma pure_blue_factor: "1 \<le> reduction_factor 0 0 255 10 0 lt"
proof -
  have "(29::real) / 20 \<le> 1 / (1 + 0.000001) * 1.5" by simp
  then have "1 \<le> curve_result (1 / (1 + 0.000001) * 1.5) 10"
    by (rule curve_ge_one) simp
  then show ?thesis by (simp add: reduction_factor_def Let_def)
qed

lemma pure_blue_clamped: "min 255 (reduction_factor 0 0 255 10 0 lt * 255) = 255"
proof -
  have "255 \<le> reduction_factor 0 0 255 10 0 lt * 255" using pure_blue_factor [of lt] by simp
  then show ?thesis by simp
qed

subsection \<open>The curve at a blue ratio of zero\<close>

text \<open>
  C1, as stated: for every strength from 0 on, the closed form evaluated at
  \<open>x = 1.5 * blue_ratio = 0\<close> is 1. It fails already at strength 1, where the value is 0:
  the bracket of the closed form vanishes at \<open>x = 0\<close>, which leaves \<open>(0 - 1) * strength + 1\<close>.
\<close>

theorem curve_at_zero_blue_not_one:
  "(0::real) \<le> 1 \<and> curve_result (0 * 1.5) 1 \<noteq> 1"
  by (simp add: curve_result_def)

text \<open>
  C1, amended: at a blue ratio of 0 the closed form is \<open>1 - strength\<close> for every strength,
  so it is 1 exactly for strength 0.
\<close>

theorem curve_at_zero_blue:
  "curve_result (0 * 1.5) strength = 1 - strength \<and>
   (curve_result (0 * 1.5) strength = 1 \<longleftrightarrow> strength = 0)"
  by (simp add: curve_result_def)

subsection \<open>The pure-blue pixel\<close>

text \<open>
  C2, as stated: the pixel (0, 0, 255) with strength 10 and dark strength 0 comes back with
  a blue sample below 255 and red and green 0. The blue sample is not below 255: at a blue
  ratio next to 1 the curve is above 1, the product exceeds 255 and the clamp returns 255.
\<close>

theorem pure_blue_not_reduced:
  "\<not> snd (snd (reduce_blue_in_pixel 0 0 255 10 0 default_luminance_threshold)) < 255"
  by (simp add: reduce_blue_in_pixel_def Let_def py_int_def pure_blue_clamped)

text \<open>
  C2, amended: the pixel (0, 0, 255) with strength 10 and dark strength 0 is returned as
  (0, 0, 255), whatever the luminance threshold: blue stays 255, red and green stay 0.
\<close>

theorem pure_blue_pixel_unchanged:
  "reduce_blue_in_pixel 0 0 255 10 0 luminance_threshold = (0, 0, 255)"
  by (simp add: reduce_blue_in_pixel_def Let_def py_int_def pure_blue_clamped)

subsection \<open>The fast path\<close>

text \<open>
  C4: with strength 0 and dark strength 0 the pixel corrector returns its pixel as it is,
  by the test on line 20 before any arithmetic; the frame function returns its image as it
  is by the same test on line 63.
\<close>

theorem fast_path_identity:
  "reduce_blue_in_pixel r g b 0 0 luminance_threshold = (r, g, b) \<and>
   apply_blue_reduction L img 0 0 = img"
  by (simp add: reduce_blue_in_pixel_def apply_blue_reduction_def)

subsection \<open>Red and green\<close>

text \<open>
  C8: for every pixel and every parameter value the first and second component of the
  result are the red and green sample of the input.
\<close>

theorem red_green_preserved:
  "fst (reduce_blue_in_pixel r g b strength dark_strength luminance_threshold) = r \<and>
   fst (snd (reduce_blue_in_pixel r g b strength dark_strength luminance_threshold)) = g"
  by (simp add: reduce_blue_in_pixel_def Let_def)

subsection \<open>Truncation of the new blue sample\<close>

text \<open>
  C10: when strength or dark strength is not 0, the blue sample of the result is the floor
  of the clamped product \<open>b_norm * reduction_factor * 255\<close>: \<^verbatim>\<open>int\<close> truncates towards
  zero and the clamped value is not negative.
\<close>

theorem blue_truncated:
  "strength \<noteq> 0 \<or> dark_strength \<noteq> 0 \<Longrightarrow>
   snd (snd (reduce_blue_in_pixel r g b strength dark_strength luminance_threshold)) =
     \<lfloor>max 0 (min 255
        (real_of_int b / 255 * reduction_factor r g b strength dark_strength luminance_threshold * 255))\<rfloor>"
  by (auto simp add: reduce_blue_in_pixel_def Let_def py_int_clamped)

text \<open>
  At the pixel (0, 0, 100) with dark strength 2 the clamped product is about 82.55; the
  result is 82, not the nearest integer 83.
\<close>

theorem blue_truncated_witness:
  "(2::real) \<noteq> 0 \<and> snd (snd (reduce_blue_in_pixel 0 0 100 0 2 0.35)) = 82"
proof -
  have h: "(0::real) \<noteq> 0 \<or> (2::real) \<noteq> 0" by simp
  have f: "reduction_factor 0 0 100 0 2 (7 / 20) = 4912 / 5950"
    by (simp add: reduction_factor_def Let_def)
  show ?thesis
    using blue_truncated [OF h, of 0 0 100 "0.35"] by (simp add: f)
qed

subsection \<open>Samples after clipping\<close>

lemma clip_bounds: "0 \<le> np_clip x 0 255 \<and> np_clip x 0 255 \<le> 255"
  by (simp add: np_clip_def)

lemma floor_clip_bounds: "0 \<le> \<lfloor>np_clip x 0 255\<rfloor> \<and> \<lfloor>np_clip x 0 255\<rfloor> \<le> 255"
proof -
  have "\<lfloor>np_clip x 0 255\<rfloor> \<le> \<lfloor>255::real\<rfloor>"
    by (rule floor_mono) (simp add: clip_bounds)
  then show ?thesis by (simp add: clip_bounds)
qed

lemma uint_small: "0 \<le> k \<Longrightarrow> k \<le> 255 \<Longrightarrow> uint (word_of_int k :: 8 word) = k"
  by (simp add: uint_word_of_int)

lemma uint_astype_clip: "uint (astype_uint8 (np_clip x 0 255)) = \<lfloor>np_clip x 0 255\<rfloor>"
  unfolding astype_uint8_def
  using floor_clip_bounds [of x] by (simp add: py_int_nonneg clip_bounds uint_small)

lemma word8_in_range: "in_range (uint (v :: 8 word))"
proof -
  have "uint v < 2 ^ 8" using uint_lt2p [of v] by simp
  then show ?thesis by (simp add: in_range_def)
qed

lemma any_image_in_range: "image_in_range img"
  unfolding image_in_range_def
  by (auto simp add: list_all_iff pixel_samples_def word8_in_range)

subsection \<open>The adjustments at their identity values\<close>

text \<open>
  C5: with saturation 100, black level 0, contrast 0 and shadows 0 the adjustment stage
  returns its image as it is; each of the four steps returns its image as it is when its
  own parameter has that value, whatever the other parameters are, and the stage is the
  four steps one after the other.
\<close>

theorem identity_parameters_skip:
  "apply_adjustments L img 100 0 0 0 = img \<and>
   saturation_step L 100 img = img \<and>
   black_level_step 0 img = img \<and>
   contrast_step L 0 img = img \<and>
   shadow_step 0 img = img \<and>
   apply_adjustments L img saturation black_level contrast shadows =
     shadow_step shadows (contrast_step L contrast
       (black_level_step black_level (saturation_step L saturation img)))"
proof -
  have steps: "saturation_step L 100 img = img" "black_level_step 0 img = img"
    "contrast_step L 0 img = img" "shadow_step 0 img = img"
    by (simp_all add: saturation_step_def black_level_step_def contrast_step_def shadow_step_def)
  have comp: "\<And>s b c h. apply_adjustments L img s b c h =
      shadow_step h (contrast_step L c (black_level_step b (saturation_step L s img)))"
    by (simp add: apply_adjustments_def Let_def)
  have "apply_adjustments L img 100 0 0 0 = img"
    by (simp only: comp steps)
  then show ?thesis using steps comp by simp
qed

subsection \<open>The reference library meets the assumptions\<close>

lemma ref_parses_ratio: "parses_ratio ref_lib"
  by (simp add: parses_ratio_def ref_lib_def ref_float_def is_digit_def digit_value_def)

lemma ref_keeps_size: "keeps_size ref_lib"
  by (simp add: keeps_size_def ref_lib_def img_size_def ref_crop_def ref_resize_def
        ref_convert_def ref_color_def ref_contrast_def ref_quantize_def split: prod.splits)

lemma scaled_index: "y < h \<Longrightarrow> 0 < n \<Longrightarrow> y * n div h < (n::nat)"
proof -
  assume y: "y < h" and n: "0 < n"
  then have "y * n < n * h" by simp
  then show ?thesis by (rule less_mult_imp_div_less)
qed

lemma ref_crop_uniform: "ref_crop (uniform_image m w h c) (0, 0, w, h) = uniform_image m w h c"
  by (simp add: ref_crop_def uniform_image_def)

lemma ref_resize_uniform:
  assumes "0 < (w::int)" "0 < (h::int)"
  shows "ref_resize (uniform_image m w h c) (w', h') = uniform_image m w' h' c"
proof -
  have cell: "replicate (nat h) (replicate (nat w) c) ! (y * nat h div nat h') ! (x * nat w div nat w') = c"
    if "y < nat h'" "x < nat w'" for x y
  proof -
    have i: "y * nat h div nat h' < nat h" using that assms by (simp add: scaled_index)
    have j: "x * nat w div nat w' < nat w" using that assms by (simp add: scaled_index)
    show ?thesis using i j by simp
  qed
  have row: "map (\<lambda>x. replicate (nat h) (replicate (nat w) c) ! (y * nat h div nat h') ! (x * nat w div nat w')) [0..<nat w']
      = replicate (nat w') c" if "y < nat h'" for y
  proof -
    have "map (\<lambda>x. replicate (nat h) (replicate (nat w) c) ! (y * nat h div nat h') ! (x * nat w div nat w')) [0..<nat w']
        = map (\<lambda>x. c) [0..<nat w']"
      by (rule map_cong) (use that cell in auto)
    then show ?thesis by (simp add: map_replicate_const)
  qed
  have "map (\<lambda>y. map (\<lambda>x. replicate (nat h) (replicate (nat w) c) ! (y * nat h div nat h') ! (x * nat w div nat w')) [0..<nat w']) [0..<nat h']
      = map (\<lambda>y. replicate (nat w') c) [0..<nat h']"
    by (rule map_cong) (use row in auto)
  then have "map (\<lambda>y. map (\<lambda>x. replicate (nat h) (replicate (nat w) c) ! (y * nat h div nat h') ! (x * nat w div nat w')) [0..<nat w']) [0..<nat h']
      = replicate (nat h') (replicate (nat w') c)"
    by (simp add: map_replicate_const)
  then show ?thesis
    by (simp add: ref_resize_def uniform_image_def)
qed

lemma ref_keeps_uniform: "keeps_uniform ref_lib"
  unfolding keeps_uniform_def
proof (intro conjI allI impI)
  fix m w h c
  show "image_crop ref_lib (uniform_image m w h c) (0, 0, w, h) = uniform_image m w h c"
    by (simp add: ref_lib_def ref_crop_uniform)
next
  fix m c and w h w' h' :: int
  assume "0 < w \<and> 0 < h \<and> 0 < w' \<and> 0 < h'"
  then show "image_resize ref_lib (uniform_image m w h c) (w', h') = uniform_image m w' h' c"
    by (simp add: ref_lib_def ref_resize_uniform)
next
  fix img f
  have "(0::real) \<le> 128 \<and> (128::real) \<le> 255 \<and>
      enhance_contrast ref_lib img f =
        img\<lparr>img_rows := map (map (map_pixel (stretch_sample 128 f))) (img_rows img)\<rparr>"
    by (simp add: ref_lib_def ref_contrast_def)
  then show "\<exists>pivot. 0 \<le> pivot \<and> pivot \<le> 255 \<and>
      enhance_contrast ref_lib img f =
        img\<lparr>img_rows := map (map (map_pixel (stretch_sample pivot f))) (img_rows img)\<rparr>"
    by blast
qed

lemma split_on_absent: "c \<notin> set s \<Longrightarrow> split_on c s = [s]"
  by (induction s) auto

lemma split_on_two:
  "c \<notin> set s \<Longrightarrow> c \<notin> set t \<Longrightarrow> split_on c (s @ c # t) = [s, t]"
  by (induction s) (auto simp add: split_on_absent)

subsection \<open>Running the crop and the program\<close>

lemma crop_to_ratio_parsed:
  assumes sa: "CHR '':'' \<notin> set sa" and sb: "CHR '':'' \<notin> set sb"
    and fa: "py_float L sa = Some num" and fb: "py_float L sb = Some den"
    and den: "den \<noteq> 0" and num: "num \<noteq> 0" and h: "img_height img \<noteq> 0"
  shows "crop_to_ratio L img (sa @ CHR '':'' # sb) =
     Inr (if real_of_int (img_width img) / real_of_int (img_height img) > num / den
          then image_crop L img
                 ((img_width img - py_int (real_of_int (img_height img) * (num / den))) div 2, 0,
                  (img_width img - py_int (real_of_int (img_height img) * (num / den))) div 2
                    + py_int (real_of_int (img_height img) * (num / den)),
                  img_height img)
          else image_crop L img
                 (0, (img_height img - py_int (real_of_int (img_width img) / (num / den))) div 2,
                  img_width img,
                  (img_height img - py_int (real_of_int (img_width img) / (num / den))) div 2
                    + py_int (real_of_int (img_width img) / (num / den))))"
  using den num h
  by (simp add: crop_to_ratio_def split_on_two [OF sa sb] fa fb Let_def)

lemma fromarray_size: "img_size (fromarray img rows) = img_size img"
  by (simp add: fromarray_def img_size_def)

lemma blue_reduction_size:
  "keeps_size L \<Longrightarrow> img_size (apply_blue_reduction L img s d) = img_size img"
  by (simp add: apply_blue_reduction_def Let_def fromarray_size keeps_size_def)

lemma adjustments_size:
  assumes "keeps_size L"
  shows "img_size (apply_adjustments L img sat bl con sh) = img_size img"
proof -
  have 1: "img_size (saturation_step L sat x) = img_size x" for x
    using assms by (simp add: saturation_step_def keeps_size_def)
  have 2: "img_size (black_level_step bl x) = img_size x" for x
    by (simp add: black_level_step_def Let_def fromarray_size)
  have 3: "img_size (contrast_step L con x) = img_size x" for x
    using assms by (simp add: contrast_step_def keeps_size_def)
  have 4: "img_size (shadow_step sh x) = img_size x" for x
    by (simp add: shadow_step_def fromarray_size)
  show ?thesis by (simp add: apply_adjustments_def Let_def 1 2 3 4)
qed

lemma main_without_palette:
  assumes f: "files w (arg_image_path a) = Some img"
    and c: "crop_to_ratio L img (if img_width img > img_height img then ''5:3'' else ''3:5'') = Inr cropped"
    and p: "files w ''palette_7color.gif'' = None"
  shows "main L a w =
    (Returned,
     w\<lparr>files := (files w)
          (path_join L ''converted'' (path_stem L (arg_image_path a) @ ''_converted.bmp'') \<mapsto>
             apply_adjustments L
               (apply_blue_reduction L
                  (image_resize L cropped (if img_width img > img_height img then (800, 480) else (480, 800)))
                  (arg_blue_reduction a) (arg_dark_blue_reduction a))
               (arg_saturation a) (arg_black_level a) (arg_contrast a) (arg_shadows a)),
       directories := insert ''converted'' (directories w),
       stdout := stdout w @
         [Msg_processing (arg_image_path a)
            (path_join L ''converted'' (path_stem L (arg_image_path a) @ ''_converted.bmp'')),
          Msg_settings (arg_blue_reduction a) (arg_dark_blue_reduction a) (arg_saturation a)
            (arg_black_level a) (arg_contrast a) (arg_shadows a),
          Msg_original_dimensions (img_size img),
          Msg_detected (if img_width img > img_height img then ''landscape'' else ''portrait'')
            (if img_width img > img_height img then ''5:3'' else ''3:5'')
            (if img_width img > img_height img then (800, 480) else (480, 800)),
          Msg_palette_warning ''palette_7color.gif'',
          Msg_done]\<rparr>)"
proof (cases "img_width img > img_height img")
  case True
  with c have c': "crop_to_ratio L img ''5:3'' = Inr cropped" by simp
  show ?thesis using True
    by (simp add: main_def f c' p Let_def print_def)
next
  case False
  with c have c': "crop_to_ratio L img ''3:5'' = Inr cropped" by simp
  show ?thesis using False
    by (simp add: main_def f c' p Let_def print_def)
qed

lemma main_with_palette:
  assumes f: "files w (arg_image_path a) = Some img"
    and c: "crop_to_ratio L img (if img_width img > img_height img then ''5:3'' else ''3:5'') = Inr cropped"
    and p: "files w ''palette_7color.gif'' = Some pal"
  shows "\<exists>w'. main L a w = (Returned, w') \<and>
     files w' (path_join L ''converted'' (path_stem L (arg_image_path a) @ ''_converted.bmp'')) =
       Some (image_convert L (image_quantize L
               (apply_adjustments L
                 (apply_blue_reduction L
                    (image_resize L cropped (if img_width img > img_height img then (800, 480) else (480, 800)))
                    (arg_blue_reduction a) (arg_dark_blue_reduction a))
                 (arg_saturation a) (arg_black_level a) (arg_contrast a) (arg_shadows a)) pal
               (if py_lower (arg_dither_method a) = ''none'' then NONE else FLOYDSTEINBERG)) ''RGB'')"
proof (cases "img_width img > img_height img")
  case True
  with c have c': "crop_to_ratio L img ''5:3'' = Inr cropped" by simp
  show ?thesis using True
    by (simp add: main_def f c' p Let_def print_def simple_dither_def)
next
  case False
  with c have c': "crop_to_ratio L img ''3:5'' = Inr cropped" by simp
  show ?thesis using False
    by (simp add: main_def f c' p Let_def print_def simple_dither_def)
qed

lemma py_int_floor_bounds:
  "0 \<le> x \<Longrightarrow> 0 \<le> py_int x \<and> real_of_int (py_int x) \<le> x \<and> x < real_of_int (py_int x) + 1"
  by (simp add: py_int_def)

lemma crop_size:
  assumes size: "keeps_size L"
    and sa: "CHR '':'' \<notin> set sa" and sb: "CHR '':'' \<notin> set sb"
    and fa: "py_float L sa = Some num" and fb: "py_float L sb = Some den"
    and den: "0 < den" and num: "0 < num"
    and w: "0 < img_width img" and h: "0 < img_height img"
  shows "\<exists>cropped. crop_to_ratio L img (sa @ CHR '':'' # sb) = Inr cropped \<and>
     (if real_of_int (img_width img) / real_of_int (img_height img) > num / den
      then img_size cropped = (py_int (real_of_int (img_height img) * (num / den)), img_height img)
      else img_size cropped = (img_width img, py_int (real_of_int (img_width img) / (num / den))))"
proof -
  have t: "0 < num / den" using den num by simp
  have "0 \<le> real_of_int (img_height img) * (num / den)"
    by (rule mult_nonneg_nonneg) (use t h in simp_all)
  then have a: "0 \<le> py_int (real_of_int (img_height img) * (num / den))"
    by (simp only: py_int_floor_bounds)
  have "0 \<le> real_of_int (img_width img) / (num / den)"
    by (rule divide_nonneg_nonneg) (use t w in simp_all)
  then have b: "0 \<le> py_int (real_of_int (img_width img) / (num / den))"
    by (simp only: py_int_floor_bounds)
  have crop: "\<And>l u r b. l \<le> r \<Longrightarrow> u \<le> b \<Longrightarrow> img_size (image_crop L img (l, u, r, b)) = (r - l, b - u)"
    using size by (simp add: keeps_size_def)
  have den0: "den \<noteq> 0" and num0: "num \<noteq> 0" and h0: "img_height img \<noteq> 0"
    using den num h by simp_all
  show ?thesis
    unfolding crop_to_ratio_parsed [OF sa sb fa fb den0 num0 h0]
    using a b h w by (simp add: crop)
qed

lemma main_ratio_crop_size:
  assumes size: "keeps_size L" and parse: "parses_ratio L"
    and w: "0 < img_width img" and h: "0 < img_height img"
  shows "\<exists>cropped.
     crop_to_ratio L img (if img_width img > img_height img then ''5:3'' else ''3:5'') = Inr cropped \<and>
     (img_height cropped = img_height img \<and>
        real_of_int (img_width cropped) \<le>
          real_of_int (img_height cropped) * (if img_width img > img_height img then 5 / 3 else 3 / 5) \<and>
        real_of_int (img_height cropped) * (if img_width img > img_height img then 5 / 3 else 3 / 5)
          < real_of_int (img_width cropped) + 1
      \<or> img_width cropped = img_width img \<and>
        real_of_int (img_height cropped) \<le>
          real_of_int (img_width cropped) / (if img_width img > img_height img then 5 / 3 else 3 / 5) \<and>
        real_of_int (img_width cropped) / (if img_width img > img_height img then 5 / 3 else 3 / 5)
          < real_of_int (img_height cropped) + 1)"
proof -
  have f5: "py_float L ''5'' = Some 5" and f3: "py_float L ''3'' = Some 3"
    using parse by (simp_all add: parses_ratio_def)
  have n5: "CHR '':'' \<notin> set ''5''" and n3: "CHR '':'' \<notin> set ''3''" by simp_all
  have hw: "0 \<le> real_of_int (img_height img)" "0 \<le> real_of_int (img_width img)" using w h by simp_all
  show ?thesis
  proof (cases "img_width img > img_height img")
    case True
    obtain cropped where c: "crop_to_ratio L img (''5'' @ CHR '':'' # ''3'') = Inr cropped"
      and s: "(if real_of_int (img_width img) / real_of_int (img_height img) > 5 / 3
        then img_size cropped = (py_int (real_of_int (img_height img) * (5 / 3)), img_height img)
        else img_size cropped = (img_width img, py_int (real_of_int (img_width img) / (5 / 3))))"
      using crop_size [OF size n5 n3 f5 f3 _ _ w h] by auto
    have b1: "0 \<le> real_of_int (img_height img) * (5 / 3)" using hw by simp
    have b2: "0 \<le> real_of_int (img_width img) / (5 / 3)" using hw by simp
    show ?thesis
      using True c s py_int_floor_bounds [OF b1] py_int_floor_bounds [OF b2]
      by (cases "real_of_int (img_width img) / real_of_int (img_height img) > 5 / 3")
         (auto simp add: img_size_def)
  next
    case False
    obtain cropped where c: "crop_to_ratio L img (''3'' @ CHR '':'' # ''5'') = Inr cropped"
      and s: "(if real_of_int (img_width img) / real_of_int (img_height img) > 3 / 5
        then img_size cropped = (py_int (real_of_int (img_height img) * (3 / 5)), img_height img)
        else img_size cropped = (img_width img, py_int (real_of_int (img_width img) / (3 / 5))))"
      using crop_size [OF size n3 n5 f3 f5 _ _ w h] by auto
    have b1: "0 \<le> real_of_int (img_height img) * (3 / 5)" using hw by simp
    have b2: "0 \<le> real_of_int (img_width img) / (3 / 5)" using hw by simp
    show ?thesis
      using False c s py_int_floor_bounds [OF b1] py_int_floor_bounds [OF b2]
      by (cases "real_of_int (img_width img) / real_of_int (img_height img) > 3 / 5")
         (auto simp add: img_size_def)
  qed
qed

lemma main_output_size:
  assumes size: "keeps_size L"
    and f: "files w (arg_image_path a) = Some img"
    and c: "crop_to_ratio L img (if img_width img > img_height img then ''5:3'' else ''3:5'') = Inr cropped"
  shows "\<exists>w' out. main L a w = (Returned, w') \<and>
     files w' (path_join L ''converted'' (path_stem L (arg_image_path a) @ ''_converted.bmp'')) = Some out \<and>
     img_size out = (if img_width img > img_height img then (800, 480) else (480, 800))"
proof (cases "files w ''palette_7color.gif''")
  case None
  have rs: "\<And>x d. img_size (image_resize L x d) = d" using size unfolding keeps_size_def by blast
  show ?thesis
    unfolding main_without_palette [OF f c None]
    by (simp add: adjustments_size [OF size] blue_reduction_size [OF size] rs)
next
  case (Some pal)
  have rs: "\<And>x d. img_size (image_resize L x d) = d" using size unfolding keeps_size_def by blast
  have cv: "\<And>x m. img_size (image_convert L x m) = img_size x" using size by (simp add: keeps_size_def)
  have qt: "\<And>x p d. img_size (image_quantize L x p d) = img_size x" using size by (simp add: keeps_size_def)
  obtain w' where m: "main L a w = (Returned, w')"
    and o: "files w' (path_join L ''converted'' (path_stem L (arg_image_path a) @ ''_converted.bmp'')) =
       Some (image_convert L (image_quantize L
               (apply_adjustments L
                 (apply_blue_reduction L
                    (image_resize L cropped (if img_width img > img_height img then (800, 480) else (480, 800)))
                    (arg_blue_reduction a) (arg_dark_blue_reduction a))
                 (arg_saturation a) (arg_black_level a) (arg_contrast a) (arg_shadows a)) pal
               (if py_lower (arg_dither_method a) = ''none'' then NONE else FLOYDSTEINBERG)) ''RGB'')"
    using main_with_palette [OF f c Some] by blast
  show ?thesis
    using m o by (simp add: cv qt adjustments_size [OF size] blue_reduction_size [OF size] rs)
qed

subsection \<open>Geometry\<close>

text \<open>
  C6: for an image of positive width and height, under \<open>keeps_size\<close> and
  \<open>parses_ratio\<close>, the crop that \<^verbatim>\<open>main\<close> requests succeeds and one of its sides is the
  exact side for the target ratio rounded down (less than one pixel short): either the
  height is kept and the width is within one pixel below height times ratio, or the width
  is kept and the height is within one pixel below width over ratio. The run returns and
  the saved image is 800 by 480 when the input is wider than high, 480 by 800 otherwise.
\<close>

theorem crop_ratio_and_final_dimensions:
  assumes size: "keeps_size L" and parse: "parses_ratio L"
    and f: "files w (arg_image_path a) = Some img"
    and pw: "0 < img_width img" and ph: "0 < img_height img"
  shows "\<exists>cropped w' out.
     crop_to_ratio L img (if img_width img > img_height img then ''5:3'' else ''3:5'') = Inr cropped \<and>
     (img_height cropped = img_height img \<and>
        real_of_int (img_width cropped) \<le>
          real_of_int (img_height cropped) * (if img_width img > img_height img then 5 / 3 else 3 / 5) \<and>
        real_of_int (img_height cropped) * (if img_width img > img_height img then 5 / 3 else 3 / 5)
          < real_of_int (img_width cropped) + 1
      \<or> img_width cropped = img_width img \<and>
        real_of_int (img_height cropped) \<le>
          real_of_int (img_width cropped) / (if img_width img > img_height img then 5 / 3 else 3 / 5) \<and>
        real_of_int (img_width cropped) / (if img_width img > img_height img then 5 / 3 else 3 / 5)
          < real_of_int (img_height cropped) + 1) \<and>
     main L a w = (Returned, w') \<and>
     files w' (path_join L ''converted'' (path_stem L (arg_image_path a) @ ''_converted.bmp'')) = Some out \<and>
     img_size out = (if img_width img > img_height img then (800, 480) else (480, 800))"
proof -
  obtain cropped where c: "crop_to_ratio L img (if img_width img > img_height img then ''5:3'' else ''3:5'') = Inr cropped"
    and r: "(img_height cropped = img_height img \<and>
        real_of_int (img_width cropped) \<le>
          real_of_int (img_height cropped) * (if img_width img > img_height img then 5 / 3 else 3 / 5) \<and>
        real_of_int (img_height cropped) * (if img_width img > img_height img then 5 / 3 else 3 / 5)
          < real_of_int (img_width cropped) + 1
      \<or> img_width cropped = img_width img \<and>
        real_of_int (img_height cropped) \<le>
          real_of_int (img_width cropped) / (if img_width img > img_height img then 5 / 3 else 3 / 5) \<and>
        real_of_int (img_width cropped) / (if img_width img > img_height img then 5 / 3 else 3 / 5)
          < real_of_int (img_height cropped) + 1)"
    using main_ratio_crop_size [OF size parse pw ph] by blast
  obtain w' out where "main L a w = (Returned, w')"
    and "files w' (path_join L ''converted'' (path_stem L (arg_image_path a) @ ''_converted.bmp'')) = Some out"
    and "img_size out = (if img_width img > img_height img then (800, 480) else (480, 800))"
    using main_output_size [OF size f c] by blast
  with c r show ?thesis by blast
qed

subsection \<open>The missing palette\<close>

text \<open>
  C7: when \<^verbatim>\<open>palette_7color.gif\<close> does not exist, the run returns normally, the file
  written is the result of \<^verbatim>\<open>apply_adjustments\<close> with no quantisation applied to it, no
  other file changes, and the output ends with the warning about the palette followed by
  the closing message.
\<close>

theorem missing_palette_skips_dither:
  assumes parse: "parses_ratio L"
    and f: "files w (arg_image_path a) = Some img"
    and h: "0 < img_height img"
    and p: "files w ''palette_7color.gif'' = None"
  shows "\<exists>cropped w' ms.
     crop_to_ratio L img (if img_width img > img_height img then ''5:3'' else ''3:5'') = Inr cropped \<and>
     main L a w = (Returned, w') \<and>
     files w' = (files w)
       (path_join L ''converted'' (path_stem L (arg_image_path a) @ ''_converted.bmp'') \<mapsto>
          apply_adjustments L
            (apply_blue_reduction L
               (image_resize L cropped (if img_width img > img_height img then (800, 480) else (480, 800)))
               (arg_blue_reduction a) (arg_dark_blue_reduction a))
            (arg_saturation a) (arg_black_level a) (arg_contrast a) (arg_shadows a)) \<and>
     stdout w' = stdout w @ ms @ [Msg_palette_warning ''palette_7color.gif'', Msg_done]"
proof -
  have f5: "py_float L ''5'' = Some 5" and f3: "py_float L ''3'' = Some 3"
    using parse by (simp_all add: parses_ratio_def)
  have n5: "CHR '':'' \<notin> set ''5''" and n3: "CHR '':'' \<notin> set ''3''" by simp_all
  have h0: "img_height img \<noteq> 0" using h by simp
  have "\<exists>cropped. crop_to_ratio L img (''5'' @ CHR '':'' # ''3'') = Inr cropped"
    by (subst crop_to_ratio_parsed [OF n5 n3 f5 f3]) (simp_all add: h0)
  moreover have "\<exists>cropped. crop_to_ratio L img (''3'' @ CHR '':'' # ''5'') = Inr cropped"
    by (subst crop_to_ratio_parsed [OF n3 n5 f3 f5]) (simp_all add: h0)
  ultimately obtain cropped where
    c: "crop_to_ratio L img (if img_width img > img_height img then ''5:3'' else ''3:5'') = Inr cropped"
    by (cases "img_width img > img_height img") auto
  define ms where "ms =
         [Msg_processing (arg_image_path a)
            (path_join L ''converted'' (path_stem L (arg_image_path a) @ ''_converted.bmp'')),
          Msg_settings (arg_blue_reduction a) (arg_dark_blue_reduction a) (arg_saturation a)
            (arg_black_level a) (arg_contrast a) (arg_shadows a),
          Msg_original_dimensions (img_size img),
          Msg_detected (if img_width img > img_height img then ''landscape'' else ''portrait'')
            (if img_width img > img_height img then ''5:3'' else ''3:5'')
            (if img_width img > img_height img then (800, 480) else (480, 800))]"
  obtain w' where m: "main L a w = (Returned, w')" and w': "w' = snd (main L a w)"
    by (simp add: main_without_palette [OF f c p])
  have fs: "files w' = (files w)
       (path_join L ''converted'' (path_stem L (arg_image_path a) @ ''_converted.bmp'') \<mapsto>
          apply_adjustments L
            (apply_blue_reduction L
               (image_resize L cropped (if img_width img > img_height img then (800, 480) else (480, 800)))
               (arg_blue_reduction a) (arg_dark_blue_reduction a))
            (arg_saturation a) (arg_black_level a) (arg_contrast a) (arg_shadows a))"
    unfolding w' main_without_palette [OF f c p] by simp
  have out: "stdout w' = stdout w @ ms @ [Msg_palette_warning ''palette_7color.gif'', Msg_done]"
    unfolding w' main_without_palette [OF f c p] ms_def by simp
  from c m fs out show ?thesis by blast
qed

subsection \<open>The pure-red image\<close>

lemma stretch_saturated:
  assumes "0 \<le> pivot" "pivot \<le> 255" "1 \<le> factor"
  shows "stretch_sample pivot factor 255 = 255 \<and> stretch_sample pivot factor 0 = 0"
proof -
  have "(factor - 1) * (255 - pivot) \<ge> 0"
    by (rule mult_nonneg_nonneg) (use assms in simp_all)
  then have hi: "255 \<le> pivot + factor * (255 - pivot)" by (simp add: algebra_simps)
  have "(factor - 1) * pivot \<ge> 0"
    by (rule mult_nonneg_nonneg) (use assms in simp_all)
  then have lo: "pivot + factor * (0 - pivot) \<le> 0" by (simp add: algebra_simps)
  have a: "np_clip (pivot + factor * (255 - pivot)) 0 255 = 255"
    using hi by (simp add: np_clip_def)
  have b: "np_clip (pivot + factor * (0 - pivot)) 0 255 = 0"
    using lo by (simp add: np_clip_def)
  show ?thesis
    using a b by (simp add: stretch_sample_def astype_float_def astype_uint8_def py_int_def)
qed

text \<open>
  C9: a 1600 by 960 image of pure red, default arguments (blue reduction 0, saturation
  100, black level 0, contrast 1, shadows 0) and no palette: under \<open>keeps_uniform\<close> and
  \<open>parses_ratio\<close> the saved image is 800 by 480 and every pixel is (255, 0, 0). The
  default contrast 1 does run the contrast enhancement, with factor 1.2; a stretch by a
  factor of at least 1 about a grey level leaves the samples 0 and 255 where they are.
\<close>

theorem pure_red_end_to_end:
  assumes uni: "keeps_uniform L" and parse: "parses_ratio L"
    and f: "files w path = Some (uniform_image ''RGB'' 1600 960 (255, 0, 0))"
    and p: "files w ''palette_7color.gif'' = None"
  shows "\<exists>w'. main L (default_args path) w = (Returned, w') \<and>
     files w' (path_join L ''converted'' (path_stem L path @ ''_converted.bmp'')) =
       Some (uniform_image ''RGB'' 800 480 (255, 0, 0)) \<and>
     img_size (uniform_image ''RGB'' 800 480 (255, 0, 0)) = (800, 480)"
proof -
  let ?red = "(255, 0, 0) :: pixel"
  let ?img = "uniform_image ''RGB'' 1600 960 ?red"
  let ?a = "default_args path"
  have f5: "py_float L ''5'' = Some 5" and f3: "py_float L ''3'' = Some 3"
    using parse by (simp_all add: parses_ratio_def)
  have n5: "CHR '':'' \<notin> set ''5''" and n3: "CHR '':'' \<notin> set ''3''" by simp_all
  have dims: "img_width ?img = 1600" "img_height ?img = 960" by (simp_all add: uniform_image_def)
  have crop_full: "image_crop L ?img (0, 0, 1600, 960) = ?img"
    using uni unfolding keeps_uniform_def by blast
  have "crop_to_ratio L ?img (''5'' @ CHR '':'' # ''3'') = Inr (image_crop L ?img (0, 0, 1600, 960))"
    by (subst crop_to_ratio_parsed [OF n5 n3 f5 f3]) (simp_all add: dims py_int_def)
  then have c: "crop_to_ratio L ?img (if img_width ?img > img_height ?img then ''5:3'' else ''3:5'') = Inr ?img"
    by (simp add: dims crop_full)
  have rs: "image_resize L ?img (800, 480) = uniform_image ''RGB'' 800 480 ?red"
    using uni unfolding keeps_uniform_def by simp
  obtain pivot where pv: "0 \<le> pivot" "pivot \<le> 255"
    and en: "enhance_contrast L (uniform_image ''RGB'' 800 480 ?red) (1 + 1 * 0.2) =
      (uniform_image ''RGB'' 800 480 ?red)\<lparr>img_rows :=
         map (map (map_pixel (stretch_sample pivot (1 + 1 * 0.2))))
           (img_rows (uniform_image ''RGB'' 800 480 ?red))\<rparr>"
    using uni unfolding keeps_uniform_def by blast
  have st: "map_pixel (stretch_sample pivot (1 + 1 * 0.2)) ?red = ?red"
    using stretch_saturated [OF pv, of "1 + 1 * 0.2"] by (simp add: map_pixel_def)
  have en': "enhance_contrast L (uniform_image ''RGB'' 800 480 ?red) (1 + 1 * 0.2) =
      uniform_image ''RGB'' 800 480 ?red"
    unfolding en using st by (simp add: uniform_image_def)
  have adj: "apply_adjustments L (uniform_image ''RGB'' 800 480 ?red) 100 0 1 0 =
      uniform_image ''RGB'' 800 480 ?red"
    using en' by (simp add: apply_adjustments_def saturation_step_def black_level_step_def
        contrast_step_def shadow_step_def)
  have f': "files w (arg_image_path ?a) = Some ?img" using f by (simp add: default_args_def)
  have sz: "img_size (uniform_image ''RGB'' 800 480 ?red) = (800, 480)"
    by (simp add: img_size_def uniform_image_def)
  show ?thesis
    unfolding main_without_palette [OF f' c p]
    by (simp add: dims default_args_def rs apply_blue_reduction_def adj sz)
qed

subsection \<open>Sample ranges of every stage\<close>

lemma corrector_blue_in_range:
  "in_range b \<Longrightarrow> in_range (snd (snd (reduce_blue_in_pixel r g b s d lt)))"
  using floor_clamped_range
  by (simp add: reduce_blue_in_pixel_def Let_def py_int_clamped in_range_def)

lemma shadow_pixel_samples:
  "\<exists>adjustment. pixel_samples (shadow_pixel sh (r, g, b)) =
     [\<lfloor>np_clip (astype_float r + adjustment) 0 255\<rfloor>,
      \<lfloor>np_clip (astype_float g + adjustment) 0 255\<rfloor>,
      \<lfloor>np_clip (astype_float b + adjustment) 0 255\<rfloor>]"
  by (rule exI [of _ "(255 - (0.299 * astype_float r + 0.587 * astype_float g + 0.114 * astype_float b)) / 255 * sh * 5"])
     (simp add: shadow_pixel_def Let_def pixel_samples_def uint_astype_clip)

text \<open>
  C3: for a pixel with samples in 0..255 and any parameters, the three samples that the
  pixel corrector returns are in 0..255. In the black-level and the shadow step the cut to
  8 bits is applied to a value already clipped to 0..255, so the stored sample is the floor
  of the clipped value and nothing wraps around. Every sample of the image after each of
  the four steps, and after the whole stage, is in 0..255.
\<close>

theorem channels_stay_in_range:
  assumes r: "in_range r" and g: "in_range g" and b: "in_range b"
  shows "in_range (fst (reduce_blue_in_pixel r g b strength dark_strength luminance_threshold)) \<and>
     in_range (fst (snd (reduce_blue_in_pixel r g b strength dark_strength luminance_threshold))) \<and>
     in_range (snd (snd (reduce_blue_in_pixel r g b strength dark_strength luminance_threshold))) \<and>
     uint (black_level_sample black_level v) =
       \<lfloor>np_clip (astype_float v + real_of_int (black_level * 255) / 100) 0 255\<rfloor> \<and>
     in_range (uint (black_level_sample black_level v)) \<and>
     (\<exists>adjustment. pixel_samples (shadow_pixel shadows (pr, pg, pb)) =
        [\<lfloor>np_clip (astype_float pr + adjustment) 0 255\<rfloor>,
         \<lfloor>np_clip (astype_float pg + adjustment) 0 255\<rfloor>,
         \<lfloor>np_clip (astype_float pb + adjustment) 0 255\<rfloor>]) \<and>
     list_all in_range (pixel_samples (shadow_pixel shadows (pr, pg, pb))) \<and>
     image_in_range (saturation_step L saturation img) \<and>
     image_in_range (black_level_step black_level img) \<and>
     image_in_range (contrast_step L contrast img) \<and>
     image_in_range (shadow_step shadows img) \<and>
     image_in_range (apply_adjustments L img saturation black_level contrast shadows)"
proof -
  have rg: "fst (reduce_blue_in_pixel r g b strength dark_strength luminance_threshold) = r"
    "fst (snd (reduce_blue_in_pixel r g b strength dark_strength luminance_threshold)) = g"
    by (simp_all add: reduce_blue_in_pixel_def Let_def)
  have bl: "uint (black_level_sample black_level v) =
       \<lfloor>np_clip (astype_float v + real_of_int (black_level * 255) / 100) 0 255\<rfloor>"
    unfolding black_level_sample_def by (rule uint_astype_clip)
  have sp: "list_all in_range (pixel_samples (shadow_pixel shadows (pr, pg, pb)))"
    by (simp add: pixel_samples_def word8_in_range split: prod.splits)
  have c1: "in_range (fst (reduce_blue_in_pixel r g b strength dark_strength luminance_threshold))"
    and c2: "in_range (fst (snd (reduce_blue_in_pixel r g b strength dark_strength luminance_threshold)))"
    using r g by (simp_all only: rg)
  note c3 = corrector_blue_in_range [OF b, of r g strength dark_strength luminance_threshold]
  note bw = word8_in_range [of "black_level_sample black_level v"]
  note sh = shadow_pixel_samples [of shadows pr pg pb]
  note i1 = any_image_in_range [of "saturation_step L saturation img"]
  note i2 = any_image_in_range [of "black_level_step black_level img"]
  note i3 = any_image_in_range [of "contrast_step L contrast img"]
  note i4 = any_image_in_range [of "shadow_step shadows img"]
  note i5 = any_image_in_range [of "apply_adjustments L img saturation black_level contrast shadows"]
  from c1 c2 c3 bl bw sh sp i1 i2 i3 i4 i5 show ?thesis
    by (intro conjI)
qed

subsection \<open>Concrete runs\<close>

text \<open>
  The pixel (10, 20, 200) and a 7 by 3 image with the reference library.
\<close>

theorem channels_stay_in_range_witness:
  "in_range (fst (reduce_blue_in_pixel 10 20 200 0 2 0.35)) \<and>
     in_range (fst (snd (reduce_blue_in_pixel 10 20 200 0 2 0.35))) \<and>
     in_range (snd (snd (reduce_blue_in_pixel 10 20 200 0 2 0.35))) \<and>
     uint (black_level_sample 50 250) =
       \<lfloor>np_clip (astype_float 250 + real_of_int (50 * 255) / 100) 0 255\<rfloor> \<and>
     in_range (uint (black_level_sample 50 250)) \<and>
     (\<exists>adjustment. pixel_samples (shadow_pixel 3 (10, 20, 200)) =
        [\<lfloor>np_clip (astype_float 10 + adjustment) 0 255\<rfloor>,
         \<lfloor>np_clip (astype_float 20 + adjustment) 0 255\<rfloor>,
         \<lfloor>np_clip (astype_float 200 + adjustment) 0 255\<rfloor>]) \<and>
     list_all in_range (pixel_samples (shadow_pixel 3 (10, 20, 200))) \<and>
     image_in_range (saturation_step ref_lib 150 sample_image) \<and>
     image_in_range (black_level_step 50 sample_image) \<and>
     image_in_range (contrast_step ref_lib 1 sample_image) \<and>
     image_in_range (shadow_step 3 sample_image) \<and>
     image_in_range (apply_adjustments ref_lib sample_image 150 50 1 3)"
  by (rule channels_stay_in_range) (simp_all add: in_range_def)

text \<open>
  A 7 by 3 image, the reference library and the default arguments.
\<close>

theorem crop_ratio_and_final_dimensions_witness:
  "\<exists>cropped w' out.
     crop_to_ratio ref_lib sample_image (if img_width sample_image > img_height sample_image then ''5:3'' else ''3:5'') = Inr cropped \<and>
     (img_height cropped = img_height sample_image \<and>
        real_of_int (img_width cropped) \<le>
          real_of_int (img_height cropped) * (if img_width sample_image > img_height sample_image then 5 / 3 else 3 / 5) \<and>
        real_of_int (img_height cropped) * (if img_width sample_image > img_height sample_image then 5 / 3 else 3 / 5)
          < real_of_int (img_width cropped) + 1
      \<or> img_width cropped = img_width sample_image \<and>
        real_of_int (img_height cropped) \<le>
          real_of_int (img_width cropped) / (if img_width sample_image > img_height sample_image then 5 / 3 else 3 / 5) \<and>
        real_of_int (img_width cropped) / (if img_width sample_image > img_height sample_image then 5 / 3 else 3 / 5)
          < real_of_int (img_height cropped) + 1) \<and>
     main ref_lib (default_args ''photo.png'') (sample_world sample_image) = (Returned, w') \<and>
     files w' (path_join ref_lib ''converted''
        (path_stem ref_lib (arg_image_path (default_args ''photo.png'')) @ ''_converted.bmp'')) = Some out \<and>
     img_size out = (if img_width sample_image > img_height sample_image then (800, 480) else (480, 800))"
  by (rule crop_ratio_and_final_dimensions [OF ref_keeps_size ref_parses_ratio])
     (simp_all add: sample_world_def default_args_def sample_image_def uniform_image_def)

text \<open>
  The same run: the sample world holds the photo only, no palette.
\<close>

theorem missing_palette_skips_dither_witness:
  "\<exists>cropped w' ms.
     crop_to_ratio ref_lib sample_image (if img_width sample_image > img_height sample_image then ''5:3'' else ''3:5'') = Inr cropped \<and>
     main ref_lib (default_args ''photo.png'') (sample_world sample_image) = (Returned, w') \<and>
     files w' = (files (sample_world sample_image))
       (path_join ref_lib ''converted''
          (path_stem ref_lib (arg_image_path (default_args ''photo.png'')) @ ''_converted.bmp'') \<mapsto>
          apply_adjustments ref_lib
            (apply_blue_reduction ref_lib
               (image_resize ref_lib cropped
                  (if img_width sample_image > img_height sample_image then (800, 480) else (480, 800)))
               (arg_blue_reduction (default_args ''photo.png''))
               (arg_dark_blue_reduction (default_args ''photo.png'')))
            (arg_saturation (default_args ''photo.png'')) (arg_black_level (default_args ''photo.png''))
            (arg_contrast (default_args ''photo.png'')) (arg_shadows (default_args ''photo.png''))) \<and>
     stdout w' = stdout (sample_world sample_image) @ ms @ [Msg_palette_warning ''palette_7color.gif'', Msg_done]"
  by (rule missing_palette_skips_dither [OF ref_parses_ratio])
     (simp_all add: sample_world_def default_args_def sample_image_def uniform_image_def)

text \<open>
  The red image in the sample world, with the reference library.
\<close>

theorem pure_red_end_to_end_witness:
  "\<exists>w'. main ref_lib (default_args ''photo.png'') (sample_world red_image) = (Returned, w') \<and>
     files w' ''converted/photo_converted.bmp'' = Some (uniform_image ''RGB'' 800 480 (255, 0, 0)) \<and>
     img_size (uniform_image ''RGB'' 800 480 (255, 0, 0)) = (800, 480)"
proof -
  have f: "files (sample_world red_image) ''photo.png'' = Some (uniform_image ''RGB'' 1600 960 (255, 0, 0))"
    by (simp add: sample_world_def red_image_def)
  have p: "files (sample_world red_image) ''palette_7color.gif'' = None"
    by (simp add: sample_world_def)
  have o: "path_join ref_lib ''converted'' (path_stem ref_lib ''photo.png'' @ ''_converted.bmp'') =
      ''converted/photo_converted.bmp''"
    by (simp add: ref_lib_def)
  show ?thesis
    using pure_red_end_to_end [OF ref_keeps_uniform ref_parses_ratio f p] unfolding o .
qed

end
